theory Spec2Isabelle
  imports Main "HOL-Library.Word" "HOL-Library.Sublist"
begin

unbundle bit_operations_syntax

section \<open>Data model of \<open>bin/ch_fuse.c\<close>\<close>

type_synonym byte = "8 word"
type_synonym path = string

text \<open>
  A C pointer to an object this module never looks into (a \<open>sqfs_ll *\<close>, a
  \<open>struct fuse_session *\<close>) is an optional address: \<open>None\<close> is \<open>NULL\<close>.
\<close>

type_synonym ptr = "nat option"

text \<open>\<open>sqfs_ll_chan\<close> of squashfuse's \<open>ll.h\<close>: the only field read here is \<open>session\<close>.\<close>

record sqfs_ll_chan =
  session :: ptr

text \<open>\<open>struct squash\<close>, lines 42-46.\<close>

record squash =
  mountpt :: string
  chan :: sqfs_ll_chan
  ll :: ptr

text \<open>
  The two functions of this file that are passed around as function pointers:
  \<open>sq_end\<close> is installed for \<open>SIGCHLD\<close> (\<open>SIG_DFL\<close> before that), \<open>sq_clean\<close> is
  the exit handler.
\<close>

datatype sig_handler = SIG_DFL | Sq_end

datatype exit_fn = Sq_clean

text \<open>
  Every call that leaves the module (operating system, squashfuse, libfuse, logging)
  is recorded, in program order, with the arguments the claims speak about.
\<close>

datatype event =
    Stat path
  | Fopen path
  | Fread path nat nat
  | Fclose path
  | Log_debug string
  | Log_info string
  | Sqfs_ll_open path
  | Opendir path
  | Mkdir path
  | Sqfs_ll_mount path "string list" ptr
  | Signal_SIGCHLD sig_handler
  | Fuse_set_signal_handlers ptr
  | Fork
  | Fuse_session_loop ptr
  | Fuse_remove_signal_handlers ptr
  | Sqfs_ll_destroy ptr
  | Sqfs_ll_unmount path
  | Exit int

text \<open>
  One process: the global \<open>sq\<close> (line 49, zero-initialised), the \<open>FILE\<close> streams it has
  opened and not closed, the handler installed for \<open>SIGCHLD\<close>, the functions registered
  to run at exit (the latest first), the calls made so far, and the exit status once it
  has terminated.
\<close>

record proc =
  sq :: squash
  streams :: "path list"
  sigchld :: sig_handler
  exit_handlers :: "exit_fn list"
  trace :: "event list"
  exited :: "int option"

definition sq_zero :: squash where
  "sq_zero = \<lparr>mountpt = [], chan = \<lparr>session = None\<rparr>, ll = None\<rparr>"

definition proc_start :: proc where
  "proc_start = \<lparr>sq = sq_zero, streams = [], sigchld = SIG_DFL, exit_handlers = [],
     trace = [], exited = None\<rparr>"

definition emit :: "event \<Rightarrow> proc \<Rightarrow> proc" where
  "emit e p = p\<lparr>trace := trace p @ [e]\<rparr>"

definition new_events :: "proc \<Rightarrow> proc \<Rightarrow> event list" where
  "new_events p p' = drop (length (trace p)) (trace p')"

text \<open>How a call of a function of this file ends in the calling process.\<close>

datatype 'a outcome =
    Returned 'a
  | Fatal string
  | Serving
  | Out_of_bounds

text \<open>
  \<open>Returned v\<close>: the function returns \<open>v\<close>. \<open>Fatal m\<close>: the process is ended by the
  fatal-error routine with message \<open>m\<close>. \<open>Serving\<close>: the process stays inside
  \<open>fuse_session_loop\<close>, which does not return. \<open>Out_of_bounds\<close>: a read ran off the
  memory that the model describes.
\<close>

section \<open>The collaborators: operating system, squashfuse, libfuse\<close>

datatype path_status = Absent | Dir_readable | Dir_unreadable | Not_a_dir

text \<open>
  What the world outside the module answers. \<open>stat_os\<close> gives \<open>st_mode\<close> when \<open>stat\<close>
  returns 0; \<open>fopen_os\<close> the bytes of the stream when \<open>fopen\<close> does not return \<open>NULL\<close>;
  \<open>past_magic\<close> is the byte that lies in the stack frame right after the 4-byte array
  \<open>magic\<close>. \<open>verbose\<close> is the global of \<open>ch_misc\<close>. \<open>sqfs_ll_mount_os\<close> gives the status
  of \<open>sqfs_ll_mount\<close> and the \<open>session\<close> field it leaves in the channel.
  \<open>fork_os\<close> is \<open>None\<close> when \<open>fork\<close> fails and \<open>Some n\<close> when a child with process id
  \<open>n + 1\<close> is created. \<open>fuse_session_loop_os\<close> is \<open>None\<close> when the loop does not return
  and \<open>Some r\<close> when it returns \<open>r\<close>.
\<close>

record os =
  stat_os :: "path \<Rightarrow> 32 word option"
  fopen_os :: "path \<Rightarrow> byte list option"
  past_magic :: byte
  verbose :: int
  sqfs_ll_open_os :: "path \<Rightarrow> ptr"
  path_status_os :: "path \<Rightarrow> path_status"
  mkdir_permitted :: "path \<Rightarrow> bool"
  sqfs_ll_mount_os :: "path \<Rightarrow> int \<times> ptr"
  fuse_set_signal_handlers_os :: int
  fork_os :: "nat option"
  fuse_session_loop_os :: "int option"

text \<open>\<open>S_ISDIR\<close> and \<open>S_ISREG\<close> of \<open>sys/stat.h\<close>: the file-type bits of \<open>st_mode\<close>.\<close>

definition S_IFMT :: "32 word" where "S_IFMT = 0xF000"
definition S_IFDIR :: "32 word" where "S_IFDIR = 0x4000"
definition S_IFREG :: "32 word" where "S_IFREG = 0x8000"

definition S_ISDIR :: "32 word \<Rightarrow> bool" where
  "S_ISDIR m = (m AND S_IFMT = S_IFDIR)"

definition S_ISREG :: "32 word \<Rightarrow> bool" where
  "S_ISREG m = (m AND S_IFMT = S_IFREG)"

text \<open>
  \<open>fread (ptr, size, nmemb, stream)\<close> on a fresh stream: the number of complete items
  read, and the bytes stored.
\<close>

definition fread :: "byte list \<Rightarrow> nat \<Rightarrow> nat \<Rightarrow> nat \<times> byte list" where
  "fread bytes sz nmemb =
     (let n = (if sz = 0 then 0 else min nmemb (length bytes div sz))
      in (n, take (n * sz) bytes))"

text \<open>
  \<open>strcmp\<close> walks both arguments until they differ or a NUL is reached. The arguments
  are the memory from each pointer onwards; \<open>None\<close> when the walk leaves it.
\<close>

fun strcmp :: "byte list \<Rightarrow> byte list \<Rightarrow> int option" where
  "strcmp (a # as) (b # bs) =
     (if a = b \<and> a \<noteq> 0 then strcmp as bs else Some (uint a - uint b))"
| "strcmp _ _ = None"

text \<open>The string literal \<open>"hsqs"\<close> in memory, with its terminator.\<close>

definition hsqs :: "byte list" where
  "hsqs = [0x68, 0x73, 0x71, 0x73, 0x00]"

text \<open>\<open>s[0]\<close> of a C string: the terminator when the string is empty.\<close>

definition c_first :: "string \<Rightarrow> char" where
  "c_first s = (case s of [] \<Rightarrow> CHR 0x00 | c # _ \<Rightarrow> c)"

text \<open>
  \<open>opendir\<close> gives a stream only for a directory that can be read; \<open>mkdir\<close> returns 0
  only when nothing exists at the path (\<open>EEXIST\<close> otherwise) and the parent allows it.
\<close>

definition opendir :: "os \<Rightarrow> path \<Rightarrow> bool" where
  "opendir w d = (path_status_os w d = Dir_readable)"

definition mkdir :: "os \<Rightarrow> path \<Rightarrow> int" where
  "mkdir w d = (if path_status_os w d = Absent \<and> mkdir_permitted w d then 0 else - 1)"

definition SQFS_OK :: int where "SQFS_OK = 0"

text \<open>
  Modelled from the spec: the macros \<open>Te\<close>, \<open>Ze\<close> and \<open>FATAL\<close> of \<open>ch_misc.h\<close>, which is
  not among the sources. The spec: every failure is fatal and terminates the process
  immediately with a descriptive message. \<open>Te\<close> fires when its test is false, \<open>Ze\<close> when
  its test is true (non-zero); the result is the message of the fatal exit, if any.
  The text that the error number adds to the message is left out. The logging macros
  \<open>INFO\<close> and \<open>DEBUG\<close> of the same header are recorded as calls, whatever the verbosity.
\<close>

definition Te :: "bool \<Rightarrow> string \<Rightarrow> string option" where
  "Te x msg = (if x then None else Some msg)"

definition Ze :: "bool \<Rightarrow> string \<Rightarrow> string option" where
  "Ze x msg = (if x then Some msg else None)"

section \<open>Image classifier: \<open>imgdir_p\<close>, lines 75-98\<close>

text \<open>
  The array \<open>magic\<close> holds the 4 bytes that \<open>fread\<close> stored; \<open>strcmp\<close> is handed the
  memory that starts there, which goes on with \<open>past_magic\<close>. The debug line is recorded
  without the four bytes it prints. No path through the function calls \<open>fclose\<close>.
\<close>

definition imgdir_p :: "os \<Rightarrow> path \<Rightarrow> proc \<Rightarrow> int outcome \<times> proc" where
  "imgdir_p w pth p0 =
     (let p1 = emit (Stat pth) p0 in
      (case Te (stat_os w pth \<noteq> None) (''can't stat '' @ pth) of
         Some m \<Rightarrow> (Fatal m, p1)
       | None \<Rightarrow>
           (let st_mode = the (stat_os w pth) in
            if S_ISDIR st_mode then (Returned 0, p1)
            else if \<not> S_ISREG st_mode then (Returned (- 1), p1)
            else
              (let file = fopen_os w pth;
                   p2 = emit (Fopen pth) p1;
                   p3 = (if file = None then p2 else p2\<lparr>streams := pth # streams p2\<rparr>)
               in (case Te (file \<noteq> None) (''can't open '' @ pth) of
                     Some m \<Rightarrow> (Fatal m, p3)
                   | None \<Rightarrow>
                       (let n = fst (fread (the file) 4 1);
                            magic = snd (fread (the file) 4 1);
                            p4 = emit (Fread pth 4 1) p3
                        in (case Te (n = 1) (''can't read '' @ pth) of
                              Some m \<Rightarrow> (Fatal m, p4)
                            | None \<Rightarrow>
                                (let p5 = emit (Log_debug ''Magic Number'') p4 in
                                 (case strcmp (magic @ [past_magic w]) hsqs of
                                    None \<Rightarrow> (Out_of_bounds, p5)
                                  | Some r \<Rightarrow>
                                      (if r = 0 then (Returned 1, p5)
                                       else (Returned (- 1), p5)))))))))))"

section \<open>Mount session manager: \<open>sq_mount\<close>, lines 101-139\<close>

text \<open>
  \<open>fork\<close>: the processes that exist after the call, each with the value the call
  returned in it. The child starts as a copy of the parent.
\<close>

definition fork :: "os \<Rightarrow> proc \<Rightarrow> (int \<times> proc) list" where
  "fork w p =
     (let p1 = emit Fork p in
      case fork_os w of
        None \<Rightarrow> [(- 1, p1)]
      | Some n \<Rightarrow> [(int (Suc n), p1), (0, p1)])"

text \<open>Lines 133-138, in a process where \<open>fork\<close> returned \<open>status\<close>.\<close>

definition sq_mount_forked :: "os \<Rightarrow> int \<Rightarrow> proc \<Rightarrow> string outcome \<times> proc" where
  "sq_mount_forked w status p =
     (case Te (status \<ge> 0) ''failed to fork process'' of
        Some m \<Rightarrow> (Fatal m, p)
      | None \<Rightarrow>
          if status > 0 then
            (let p1 = emit (Fuse_session_loop (session (chan (sq p)))) p in
             case fuse_session_loop_os w of
               None \<Rightarrow> (Serving, p1)
             | Some r \<Rightarrow>
                 (case Te (r \<ge> 0) ''failed to create fuse loop'' of
                    Some m \<Rightarrow> (Fatal m, p1)
                  | None \<Rightarrow> (Returned (mountpt (sq p1)), p1)))
          else (Returned (mountpt (sq p)), p))"

text \<open>Lines 125-132: the handlers, then the fork.\<close>

definition sq_mount_handlers :: "os \<Rightarrow> proc \<Rightarrow> (string outcome \<times> proc) list" where
  "sq_mount_handlers w p =
     (let p1 = emit (Signal_SIGCHLD Sq_end) (p\<lparr>sigchld := Sq_end\<rparr>);
          p2 = emit (Fuse_set_signal_handlers (session (chan (sq p1)))) p1
      in case Te (fuse_set_signal_handlers_os w \<ge> 0) ''can't set signal handlers'' of
           Some m \<Rightarrow> [(Fatal m, p2)]
         | None \<Rightarrow> map (\<lambda>(status, q). sq_mount_forked w status q) (fork w p2))"

text \<open>Lines 120-124: \<open>sqfs_ll_mount\<close> writes the channel; on failure the session tells why.\<close>

definition sq_mount_session :: "os \<Rightarrow> string list \<Rightarrow> proc \<Rightarrow> (string outcome \<times> proc) list" where
  "sq_mount_session w args p =
     (let (st, s) = sqfs_ll_mount_os w (mountpt (sq p));
          p1 = emit (Sqfs_ll_mount (mountpt (sq p)) args (ll (sq p)))
                 (p\<lparr>sq := (sq p)\<lparr>chan := \<lparr>session = s\<rparr>\<rparr>\<rparr>)
      in if SQFS_OK \<noteq> st then
           (case Te (session (chan (sq p1)) \<noteq> None) ''failed to create fuse session'' of
              Some m \<Rightarrow> [(Fatal m, p1)]
            | None \<Rightarrow> [(Fatal ''failed to mount'', p1)])
         else sq_mount_handlers w p1)"

text \<open>Lines 117-118: the directory is created when \<open>opendir\<close> gives \<open>NULL\<close>.\<close>

definition sq_mount_dir :: "os \<Rightarrow> string list \<Rightarrow> proc \<Rightarrow> (string outcome \<times> proc) list" where
  "sq_mount_dir w args p =
     (let d = mountpt (sq p);
          p1 = emit (Opendir d) p
      in if \<not> opendir w d then
           (let p2 = emit (Mkdir d) p1 in
            case Ze (mkdir w d \<noteq> 0) (''failed to create: '' @ d) of
              Some m \<Rightarrow> [(Fatal m, p2)]
            | None \<Rightarrow> sq_mount_session w args p2)
         else sq_mount_session w args p1)"

text \<open>
  The whole call. The result lists the processes that exist when the call is over, the
  calling one first and the forked child, if any, second, each with the way the call
  ended in it. \<open>FUSE_ARGS_INIT (v, argv)\<close> hands the first \<open>v\<close> entries of \<open>argv\<close> on.
\<close>

definition sq_mount :: "os \<Rightarrow> string \<Rightarrow> string \<Rightarrow> proc \<Rightarrow> (string outcome \<times> proc) list" where
  "sq_mount w mountdir filepath p =
     (case Ze (c_first mountdir = CHR 0x00) ''mount point can't be empty'' of
        Some m \<Rightarrow> [(Fatal m, p)]
      | None \<Rightarrow>
          (let p1 = p\<lparr>sq := (sq p)\<lparr>mountpt := mountdir\<rparr>\<rparr>;
               p2 = emit (Log_info (''mount point: '' @ mountpt (sq p1))) p1;
               argv = [filepath, ''-d''];
               v = (if verbose w > 2 then 2 else 1);
               args = take v argv;
               p3 = emit (Sqfs_ll_open filepath)
                      (p2\<lparr>sq := (sq p2)\<lparr>ll := sqfs_ll_open_os w filepath\<rparr>\<rparr>)
           in case Te (ll (sq p3) \<noteq> None) (''failed to open '' @ filepath) of
                Some m \<Rightarrow> [(Fatal m, p3)]
              | None \<Rightarrow> sq_mount_dir w args p3))"

section \<open>Lifecycle coordinator: \<open>sq_end\<close> and \<open>sq_clean\<close>, lines 58-72\<close>

text \<open>\<open>sq_clean\<close> reads \<open>sq\<close> and assigns nothing to it.\<close>

definition sq_clean :: "proc \<Rightarrow> proc" where
  "sq_clean p =
     (let p1 = emit (Fuse_remove_signal_handlers (session (chan (sq p)))) p;
          p2 = emit (Sqfs_ll_destroy (ll (sq p1))) p1;
          p3 = emit (Log_debug (''unmounting: '' @ mountpt (sq p2))) p2
      in emit (Sqfs_ll_unmount (mountpt (sq p3))) p3)"

text \<open>
  The same four statements one at a time, so that a signal can arrive between two of
  them: each is one call on a field of \<open>sq\<close>.
\<close>

datatype stmt = Remove_signal_handlers | Destroy_image | Log_unmounting | Unmount

fun stmt_event :: "squash \<Rightarrow> stmt \<Rightarrow> event" where
  "stmt_event s Remove_signal_handlers = Fuse_remove_signal_handlers (session (chan s))"
| "stmt_event s Destroy_image = Sqfs_ll_destroy (ll s)"
| "stmt_event s Log_unmounting = Log_debug (''unmounting: '' @ mountpt s)"
| "stmt_event s Unmount = Sqfs_ll_unmount (mountpt s)"

definition run_stmt :: "stmt \<Rightarrow> proc \<Rightarrow> proc" where
  "run_stmt s p = emit (stmt_event (sq p) s) p"

definition sq_clean_body :: "stmt list" where
  "sq_clean_body = [Remove_signal_handlers, Destroy_image, Log_unmounting, Unmount]"

fun body :: "exit_fn \<Rightarrow> stmt list" where
  "body Sq_clean = sq_clean_body"

text \<open>
  Where a live process is: in its ordinary code (the service process: inside
  \<open>fuse_session_loop\<close>), or inside \<open>exit (status)\<close>, with the exit functions not yet
  started and the statements left of the one that is running.
\<close>

datatype control = Running | In_exit int "exit_fn list" "stmt list"

text \<open>
  \<open>exit (status)\<close> of the C library as glibc carries it out: the registered functions
  are called one by one, the latest registered first, and each is taken off the list
  before it is called. A call of \<open>exit\<close> made while one is in progress, which only a
  signal handler can make here, therefore goes on with the functions not yet started,
  never returns to the interrupted one, and ends the process with its own status.
\<close>

definition exit_call :: "int \<Rightarrow> control \<times> proc \<Rightarrow> control \<times> proc" where
  "exit_call status cp =
     (case fst cp of
        Running \<Rightarrow> (In_exit status (exit_handlers (snd cp)) [], snd cp)
      | In_exit _ hs _ \<Rightarrow> (In_exit status hs [], snd cp))"

definition sq_end :: "control \<times> proc \<Rightarrow> control \<times> proc" where
  "sq_end cp = exit_call 0 (fst cp, emit (Log_debug ''end fuse loop'') (snd cp))"

text \<open>
  Modelled from the spec: the registration of \<open>sq_clean\<close> as exit handler, which the
  caller of this module does and which is not among the sources. The spec: the cleanup
  handler is registered to run whenever the service process is about to exit, including
  via the termination trigger. The comment above \<open>sq_clean\<close> says the same.
\<close>

definition register_cleanup :: "proc \<Rightarrow> proc" where
  "register_cleanup p = p\<lparr>exit_handlers := Sq_clean # exit_handlers p\<rparr>"

text \<open>
  What happens to a process, one thing at a time: \<open>SIGCHLD\<close> is delivered (the worker
  has terminated; the installed handler runs, and the signal is ignored by default);
  the ordinary code calls \<open>exit\<close>, as the fatal-error routine does; or the process
  carries out its next step. Line 125 installs \<open>sq_end\<close> and nothing in the file resets
  or blocks it, so it can run between any two statements of \<open>sq_clean\<close>. Nothing
  happens to a process that has terminated.
\<close>

datatype tick = Sigchld | Call_exit int | Advance

fun advance :: "control \<times> proc \<Rightarrow> control \<times> proc" where
  "advance (Running, p) = (Running, p)"
| "advance (In_exit status hs (s # ss), p) = (In_exit status hs ss, run_stmt s p)"
| "advance (In_exit status (h # hs) [], p) = (In_exit status hs (body h), p)"
| "advance (In_exit status [] [], p) =
     (In_exit status [] [], (emit (Exit status) p)\<lparr>exited := Some status\<rparr>)"

definition step :: "tick \<Rightarrow> control \<times> proc \<Rightarrow> control \<times> proc" where
  "step t cp =
     (if exited (snd cp) \<noteq> None then cp
      else case t of
             Sigchld \<Rightarrow> (case sigchld (snd cp) of SIG_DFL \<Rightarrow> cp | Sq_end \<Rightarrow> sq_end cp)
           | Call_exit status \<Rightarrow>
               (case fst cp of Running \<Rightarrow> exit_call status cp | In_exit _ _ _ \<Rightarrow> cp)
           | Advance \<Rightarrow> advance cp)"

definition lifetime :: "tick list \<Rightarrow> control \<times> proc \<Rightarrow> control \<times> proc" where
  "lifetime ts cp = fold step ts cp"

fun teardown :: "event \<Rightarrow> bool" where
  "teardown (Fuse_remove_signal_handlers _) = True"
| "teardown (Sqfs_ll_destroy _) = True"
| "teardown (Sqfs_ll_unmount _) = True"
| "teardown _ = False"

text \<open>
  The teardown calls of a complete \<open>sq_clean\<close>, and those that a list of its statements
  still has to make.
\<close>

definition full_teardown :: "squash \<Rightarrow> event list" where
  "full_teardown s =
     [Fuse_remove_signal_handlers (session (chan s)), Sqfs_ll_destroy (ll s),
      Sqfs_ll_unmount (mountpt s)]"

definition owed :: "squash \<Rightarrow> stmt list \<Rightarrow> event list" where
  "owed s ss = filter teardown (map (stmt_event s) ss)"

text \<open>
  What holds of a process with \<open>sq_clean\<close> as its one exit function, all the way from
  the state \<open>p0\<close> in which it was running: \<open>sq\<close> is as it was, and the teardown calls
  made since, followed by those still to come, begin the complete teardown.
\<close>

definition cleanup_inv :: "proc \<Rightarrow> control \<times> proc \<Rightarrow> bool" where
  "cleanup_inv p0 cp =
     (sq (snd cp) = sq p0 \<and> exit_handlers (snd cp) = [Sq_clean]
      \<and> length (trace p0) \<le> length (trace (snd cp))
      \<and> (case fst cp of
            Running \<Rightarrow> filter teardown (new_events p0 (snd cp)) = []
          | In_exit status hs ss \<Rightarrow>
              (hs = [Sq_clean] \<and> ss = [] \<and> filter teardown (new_events p0 (snd cp)) = [])
              \<or> (hs = [] \<and> prefix (filter teardown (new_events p0 (snd cp)) @ owed (sq p0) ss)
                                (full_teardown (sq p0)))))"

section \<open>Observations on a run\<close>

fun returned :: "'a outcome \<times> proc \<Rightarrow> bool" where
  "returned (Returned _, _) = True"
| "returned _ = False"

fun is_open :: "event \<Rightarrow> bool" where
  "is_open (Sqfs_ll_open _) = True"
| "is_open _ = False"

fun is_mkdir :: "event \<Rightarrow> bool" where
  "is_mkdir (Mkdir _) = True"
| "is_mkdir _ = False"

fun is_mount :: "event \<Rightarrow> bool" where
  "is_mount (Sqfs_ll_mount _ _ _) = True"
| "is_mount _ = False"

text \<open>\<open>before A B es\<close>: in \<open>es\<close>, every \<open>B\<close> call comes after some \<open>A\<close> call.\<close>

fun before :: "(event \<Rightarrow> bool) \<Rightarrow> (event \<Rightarrow> bool) \<Rightarrow> event list \<Rightarrow> bool" where
  "before A B [] = True"
| "before A B (e # es) = (if A e then True else if B e then False else before A B es)"

text \<open>\<open>none_after A B es\<close>: in \<open>es\<close>, no \<open>A\<close> call comes at or after a \<open>B\<close> call.\<close>

fun none_after :: "(event \<Rightarrow> bool) \<Rightarrow> (event \<Rightarrow> bool) \<Rightarrow> event list \<Rightarrow> bool" where
  "none_after A B [] = True"
| "none_after A B (e # es) = (if B e then \<not> list_ex A (e # es) else none_after A B es)"

section \<open>Concrete environments\<close>

text \<open>A directory, an image that starts with the signature, and a two-byte file.\<close>

definition os_example :: os where
  "os_example =
     \<lparr>stat_os = (\<lambda>f. if f = ''/tmp/realdir'' then Some 0x41ED
                     else if f = ''/tmp/image.sqfs'' \<or> f = ''/tmp/short'' then Some 0x81A4
                     else None),
      fopen_os = (\<lambda>f. if f = ''/tmp/image.sqfs'' then Some [0x68, 0x73, 0x71, 0x73, 0x04, 0x00]
                      else if f = ''/tmp/short'' then Some [0x68, 0x73]
                      else None),
      past_magic = 0x01,
      verbose = 1,
      sqfs_ll_open_os = (\<lambda>f. if f = ''/tmp/image.sqfs'' then Some 7 else None),
      path_status_os = (\<lambda>d. if d = ''/mnt/img'' then Dir_readable
                            else if d = ''/mnt/locked'' then Dir_unreadable
                            else Absent),
      mkdir_permitted = (\<lambda>d. True),
      sqfs_ll_mount_os = (\<lambda>d. if d = ''/mnt/img'' then (0, Some 3)
                              else if d = ''/mnt/new'' then (1, Some 3)
                              else (1, None)),
      fuse_set_signal_handlers_os = 0,
      fork_os = Some 41,
      fuse_session_loop_os = Some 0\<rparr>"

text \<open>
  The service process of a mount of \<open>/tmp/image.sqfs\<close> at \<open>/mnt/img\<close> whose loop does
  not return, with the cleanup registered beforehand.
\<close>

definition os_serving :: os where
  "os_serving = os_example\<lparr>fuse_session_loop_os := None\<rparr>"

definition serving_example :: proc where
  "serving_example =
     snd (hd (sq_mount os_serving ''/mnt/img'' ''/tmp/image.sqfs'' (register_cleanup proc_start)))"

text \<open>The same service process when nothing has been registered to run at exit.\<close>

definition serving_unregistered :: proc where
  "serving_unregistered =
     snd (hd (sq_mount os_serving ''/mnt/img'' ''/tmp/image.sqfs'' proc_start))"

section \<open>Properties of the classifier\<close>

lemma S_ISREG_not_S_ISDIR: "S_ISREG m \<Longrightarrow> \<not> S_ISDIR m"
  by (auto simp: S_ISREG_def S_ISDIR_def S_IFREG_def S_IFDIR_def)

lemma S_ISDIR_example: "S_ISDIR 0x41ED"
  by (simp add: S_ISDIR_def S_IFMT_def S_IFDIR_def)

lemma S_ISREG_example: "S_ISREG 0x81A4"
  by (simp add: S_ISREG_def S_IFMT_def S_IFREG_def)

text \<open>
  C8. A path that can be stat'ed and is a directory is classified 0 at once: the only
  call made is \<open>stat\<close>, no stream is opened, and neither the contents behind the path
  nor the memory next to \<open>magic\<close> matters.
\<close>

theorem imgdir_p_directory:
  assumes "stat_os w pth = Some m" and "S_ISDIR m"
  shows "imgdir_p w pth p = (Returned 0, emit (Stat pth) p)
       \<and> new_events p (snd (imgdir_p w pth p)) = [Stat pth]
       \<and> streams (snd (imgdir_p w pth p)) = streams p
       \<and> imgdir_p (w\<lparr>fopen_os := f, past_magic := b\<rparr>) pth p = imgdir_p w pth p"
  using assms by (simp add: imgdir_p_def Te_def emit_def new_events_def)

theorem imgdir_p_directory_witness:
  "stat_os os_example ''/tmp/realdir'' = Some 0x41ED \<and> S_ISDIR 0x41ED
   \<and> imgdir_p os_example ''/tmp/realdir'' proc_start
       = (Returned 0, emit (Stat ''/tmp/realdir'') proc_start)
   \<and> imgdir_p (os_example\<lparr>fopen_os := (\<lambda>f. Some [0x68, 0x73, 0x71, 0x73]), past_magic := 0\<rparr>)
        ''/tmp/realdir'' proc_start = imgdir_p os_example ''/tmp/realdir'' proc_start"
proof -
  have s: "stat_os os_example ''/tmp/realdir'' = Some 0x41ED"
    by (simp add: os_example_def)
  from imgdir_p_directory [OF s S_ISDIR_example, where p = proc_start
      and f = "\<lambda>f. Some [0x68, 0x73, 0x71, 0x73]" and b = 0] s S_ISDIR_example
  show ?thesis by simp
qed

text \<open>
  C7. A regular file that can be opened and holds fewer than 4 bytes: \<open>fread\<close> reads no
  complete item, and the call ends in the fatal error \<open>can't read\<close> followed by the
  path. It does not return -1.
\<close>

theorem imgdir_p_short_file:
  assumes "stat_os w pth = Some m" and "S_ISREG m"
    and "fopen_os w pth = Some bytes" and "length bytes < 4"
  shows "fst (fread bytes 4 1) \<noteq> 1
       \<and> fst (imgdir_p w pth p) = Fatal (''can't read '' @ pth)
       \<and> fst (imgdir_p w pth p) \<noteq> Returned (- 1)"
  using assms S_ISREG_not_S_ISDIR [of m]
  by (simp add: imgdir_p_def Te_def fread_def Let_def)

theorem imgdir_p_short_file_witness:
  "stat_os os_example ''/tmp/short'' = Some 0x81A4 \<and> S_ISREG 0x81A4
   \<and> fopen_os os_example ''/tmp/short'' = Some [0x68, 0x73]
   \<and> length [0x68, 0x73 :: byte] < 4
   \<and> fst (imgdir_p os_example ''/tmp/short'' proc_start) = Fatal ''can't read /tmp/short''"
proof -
  have s: "stat_os os_example ''/tmp/short'' = Some 0x81A4"
    by (simp add: os_example_def)
  have f: "fopen_os os_example ''/tmp/short'' = Some [0x68, 0x73]"
    by (simp add: os_example_def)
  have l: "length [0x68, 0x73 :: byte] < 4" by simp
  from imgdir_p_short_file [OF s S_ISREG_example f l, of proc_start] s S_ISREG_example f l
  show ?thesis by simp
qed

text \<open>
  How \<open>strcmp\<close> decides on the 4 bytes read: it runs through them and, when all four
  match, goes on to the byte behind the array, which \<open>fread\<close> did not write.
\<close>

lemma strcmp_Cons_zero:
  "strcmp (a # as) (b # bs) = Some 0 \<longleftrightarrow> a = b \<and> (a = 0 \<or> strcmp as bs = Some 0)"
  by (auto simp: word_uint_eq_iff)

lemma strcmp_hsqs_zero:
  "strcmp [a, b, c, d, e] hsqs = Some 0 \<longleftrightarrow> [a, b, c, d] = [0x68, 0x73, 0x71, 0x73] \<and> e = 0"
  unfolding hsqs_def strcmp_Cons_zero by auto

lemma strcmp_hsqs:
  "strcmp [a, b, c, d, e] hsqs = Some r \<Longrightarrow>
     r = 0 \<longleftrightarrow> [a, b, c, d] = [0x68, 0x73, 0x71, 0x73] \<and> e = 0"
  using strcmp_hsqs_zero [of a b c d e] by auto

lemma strcmp_hsqs_defined: "strcmp [a, b, c, d, e] hsqs \<noteq> None"
  by (simp add: hsqs_def)

lemma four_bytes:
  assumes "4 \<le> length (bytes :: byte list)"
  obtains a b c d rest where "bytes = a # b # c # d # rest"
proof -
  from assms obtain a r1 where 1: "bytes = a # r1" by (cases bytes) auto
  with assms obtain b r2 where 2: "r1 = b # r2" by (cases r1) auto
  with 1 assms obtain c r3 where 3: "r2 = c # r3" by (cases r2) auto
  with 1 2 assms obtain d r4 where 4: "r3 = d # r4" by (cases r3) auto
  from 1 2 3 4 that show thesis by blast
qed

text \<open>
  The classification of a regular file of at least 4 bytes: 1 exactly when the first 4
  bytes are the signature and the byte behind \<open>magic\<close> is NUL, and -1 otherwise.
  So a file whose first 4 bytes differ from the signature is always classified -1.
\<close>

lemma imgdir_p_regular:
  assumes "stat_os w pth = Some m" and "S_ISREG m"
    and "fopen_os w pth = Some bytes" and "4 \<le> length bytes"
  shows "fst (imgdir_p w pth p) =
           (if take 4 bytes = [0x68, 0x73, 0x71, 0x73] \<and> past_magic w = 0
            then Returned 1 else Returned (- 1))"
proof -
  from assms(4) obtain a b c d rest where bs: "bytes = a # b # c # d # rest"
    by (rule four_bytes)
  obtain r where r: "strcmp [a, b, c, d, past_magic w] hsqs = Some r"
    using strcmp_hsqs_defined [of a b c d "past_magic w"] by blast
  from strcmp_hsqs [OF r] r assms(1-3) S_ISREG_not_S_ISDIR [OF assms(2)] bs
  show ?thesis
    by (simp add: imgdir_p_def Te_def fread_def Let_def)
qed

text \<open>
  C3. The regular file \<open>/tmp/image.sqfs\<close> starts with the bytes \<open>h s q s\<close>. With a
  non-zero byte behind \<open>magic\<close> in the stack frame, the classifier returns -1, not 1.
\<close>

theorem imgdir_p_signature_unterminated:
  "take 4 (the (fopen_os os_example ''/tmp/image.sqfs'')) = [0x68, 0x73, 0x71, 0x73]
   \<and> fst (imgdir_p os_example ''/tmp/image.sqfs'' proc_start) = Returned (- 1)"
  by (simp add: imgdir_p_def Te_def fread_def Let_def os_example_def S_ISDIR_def S_ISREG_def
      S_IFMT_def S_IFDIR_def S_IFREG_def hsqs_def)

text \<open>What classification leaves behind: \<open>sq\<close> as it was, and no call of \<open>fclose\<close>.\<close>

lemma imgdir_p_sq: "sq (snd (imgdir_p w pth p)) = sq p"
  by (simp add: imgdir_p_def Te_def emit_def Let_def split: option.splits)

lemma imgdir_p_no_fclose: "Fclose f \<notin> set (new_events p (snd (imgdir_p w pth p)))"
  by (simp add: imgdir_p_def Te_def emit_def new_events_def Let_def split: option.splits)

lemma imgdir_p_streams:
  assumes "stat_os w pth = Some m" and "S_ISREG m" and "fopen_os w pth = Some bytes"
  shows "streams (snd (imgdir_p w pth p)) = pth # streams p"
  using assms S_ISREG_not_S_ISDIR [of m]
  by (simp add: imgdir_p_def Te_def emit_def Let_def split: option.splits)

text \<open>
  C9. Classifying the regular file \<open>/tmp/image.sqfs\<close> (here with a NUL behind \<open>magic\<close>,
  so that 1 is returned): the calls are \<open>stat\<close>, \<open>fopen\<close>, \<open>fread\<close> and the debug log;
  the stream is still open when the function returns. The global \<open>sq\<close> is untouched.
\<close>

theorem imgdir_p_stream_left_open:
  "imgdir_p (os_example\<lparr>past_magic := 0\<rparr>) ''/tmp/image.sqfs'' proc_start
     = (Returned 1,
        proc_start\<lparr>streams := [''/tmp/image.sqfs''],
          trace := [Stat ''/tmp/image.sqfs'', Fopen ''/tmp/image.sqfs'',
                    Fread ''/tmp/image.sqfs'' 4 1, Log_debug ''Magic Number'']\<rparr>)"
  by (simp add: imgdir_p_def Te_def fread_def Let_def os_example_def S_ISDIR_def S_ISREG_def
      S_IFMT_def S_IFDIR_def S_IFREG_def hsqs_def emit_def proc_start_def)

section \<open>Properties of the mount operation\<close>

text \<open>The call up to the test of the image handle, for a mount directory that is given.\<close>

lemma sq_mount_nonempty:
  assumes "c_first mountdir \<noteq> CHR 0x00"
  shows "sq_mount w mountdir filepath p =
     (let p3 = emit (Sqfs_ll_open filepath)
                 ((emit (Log_info (''mount point: '' @ mountdir))
                    (p\<lparr>sq := (sq p)\<lparr>mountpt := mountdir\<rparr>\<rparr>))
                  \<lparr>sq := (sq p)\<lparr>mountpt := mountdir, ll := sqfs_ll_open_os w filepath\<rparr>\<rparr>)
      in if sqfs_ll_open_os w filepath = None then [(Fatal (''failed to open '' @ filepath), p3)]
         else sq_mount_dir w (take (if verbose w > 2 then 2 else 1) [filepath, ''-d'']) p3)"
  using assms by (simp add: sq_mount_def Ze_def Te_def Let_def emit_def)

lemma c_first_example: "c_first ''/mnt/img'' \<noteq> CHR 0x00"
  by (simp add: c_first_def)

text \<open>
  C5. With an empty mount directory (its first character is the terminator) the call
  ends in the fatal error \<open>mount point can't be empty\<close> in the one calling process, whose
  state is the one it started from: no call has been made (no \<open>sqfs_ll_open\<close>, no
  \<open>mkdir\<close>, no \<open>sqfs_ll_mount\<close>) and \<open>sq\<close> holds no new handle or session.
\<close>

theorem sq_mount_empty_mountdir:
  assumes "c_first mountdir = CHR 0x00"
  shows "sq_mount w mountdir filepath p = [(Fatal ''mount point can't be empty'', p)]
       \<and> new_events p p = []"
  using assms by (simp add: sq_mount_def Ze_def new_events_def)

theorem sq_mount_empty_mountdir_witness:
  "c_first '''' = CHR 0x00
   \<and> sq_mount os_example '''' ''/tmp/image.sqfs'' proc_start
       = [(Fatal ''mount point can't be empty'', proc_start)]"
proof -
  have e: "c_first '''' = CHR 0x00" by (simp add: c_first_def)
  from sq_mount_empty_mountdir [OF e] e show ?thesis by simp
qed

lemma sq_mount_open_fails:
  assumes "c_first mountdir \<noteq> CHR 0x00" and "sqfs_ll_open_os w filepath = None"
  shows "\<exists>p'. sq_mount w mountdir filepath p = [(Fatal (''failed to open '' @ filepath), p')]
            \<and> new_events p p' = [Log_info (''mount point: '' @ mountdir), Sqfs_ll_open filepath]"
  using assms by (simp add: sq_mount_nonempty Let_def emit_def new_events_def)

lemma sq_mount_order:
  "list_all (\<lambda>(r, q). before is_open is_mkdir (new_events p q)
                     \<and> before is_open is_mount (new_events p q)
                     \<and> none_after is_mkdir is_mount (new_events p q))
     (sq_mount w mountdir filepath p)"
  by (simp add: sq_mount_def sq_mount_dir_def sq_mount_session_def sq_mount_handlers_def
      sq_mount_forked_def fork_def Ze_def Te_def Let_def emit_def new_events_def
      split: option.splits prod.splits)

text \<open>
  C6. When \<open>sqfs_ll_open\<close> returns \<open>NULL\<close> the call ends in the fatal error
  \<open>failed to open\<close> followed by the image path, and the only calls made are the info
  log and \<open>sqfs_ll_open\<close>: no \<open>opendir\<close>, no \<open>mkdir\<close>, no \<open>sqfs_ll_mount\<close>. In every
  run, in each process, a \<open>mkdir\<close> and a \<open>sqfs_ll_mount\<close> come only after
  \<open>sqfs_ll_open\<close>, and no \<open>mkdir\<close> comes at or after \<open>sqfs_ll_mount\<close>.
\<close>

theorem sq_mount_image_open_first:
  "(c_first mountdir \<noteq> CHR 0x00 \<and> sqfs_ll_open_os w filepath = None \<longrightarrow>
      (\<exists>p'. sq_mount w mountdir filepath p = [(Fatal (''failed to open '' @ filepath), p')]
          \<and> new_events p p' = [Log_info (''mount point: '' @ mountdir), Sqfs_ll_open filepath]))
   \<and> list_all (\<lambda>(r, q). before is_open is_mkdir (new_events p q)
                     \<and> before is_open is_mount (new_events p q)
                     \<and> none_after is_mkdir is_mount (new_events p q))
        (sq_mount w mountdir filepath p)"
  using sq_mount_open_fails [of mountdir w filepath p] sq_mount_order [of p w mountdir filepath]
  by blast

theorem sq_mount_image_open_first_witness:
  "c_first ''/mnt/img'' \<noteq> CHR 0x00 \<and> sqfs_ll_open_os os_example ''/tmp/other'' = None
   \<and> (\<exists>p'. sq_mount os_example ''/mnt/img'' ''/tmp/other'' proc_start
             = [(Fatal ''failed to open /tmp/other'', p')]
          \<and> new_events proc_start p'
             = [Log_info ''mount point: /mnt/img'', Sqfs_ll_open ''/tmp/other''])
   \<and> list_all (\<lambda>(r, q). before is_open is_mkdir (new_events proc_start q)
                     \<and> before is_open is_mount (new_events proc_start q)
                     \<and> none_after is_mkdir is_mount (new_events proc_start q))
        (sq_mount os_example ''/mnt/new'' ''/tmp/image.sqfs'' proc_start)"
proof -
  have o: "sqfs_ll_open_os os_example ''/tmp/other'' = None"
    by (simp add: os_example_def)
  from sq_mount_image_open_first [of "''/mnt/img''" os_example "''/tmp/other''" proc_start]
    sq_mount_image_open_first [of "''/mnt/new''" os_example "''/tmp/image.sqfs''" proc_start]
    c_first_example o
  show ?thesis by simp
qed

text \<open>A run in which the directory is created: the three calls, in the order stated.\<close>

lemma sq_mount_order_example:
  "map (\<lambda>(r, q). filter (\<lambda>e. is_open e \<or> is_mkdir e \<or> is_mount e) (new_events proc_start q))
     (sq_mount os_example ''/mnt/new'' ''/tmp/image.sqfs'' proc_start)
   = [[Sqfs_ll_open ''/tmp/image.sqfs'', Mkdir ''/mnt/new'',
       Sqfs_ll_mount ''/mnt/new'' [''/tmp/image.sqfs''] (Some 7)]]"
  by (simp add: sq_mount_def sq_mount_dir_def sq_mount_session_def Ze_def Te_def Let_def
      emit_def new_events_def os_example_def c_first_def opendir_def mkdir_def SQFS_OK_def
      proc_start_def)

text \<open>
  C4. When the mount step is reached and \<open>sqfs_ll_mount\<close> does not return \<open>SQFS_OK\<close>,
  the call ends fatally, and the message depends on the session that the failed call
  left in the channel: \<open>failed to create fuse session\<close> when it is \<open>NULL\<close>,
  \<open>failed to mount\<close> otherwise. The two messages differ.
\<close>

theorem sq_mount_failure_messages:
  assumes "c_first mountdir \<noteq> CHR 0x00" and "sqfs_ll_open_os w filepath \<noteq> None"
    and "opendir w mountdir \<or> mkdir w mountdir = 0"
    and "sqfs_ll_mount_os w mountdir = (st, s)" and "st \<noteq> SQFS_OK"
  shows "(\<exists>p'. sq_mount w mountdir filepath p =
               [(Fatal (if s = None then ''failed to create fuse session''
                        else ''failed to mount''), p')]
            \<and> session (chan (sq p')) = s
            \<and> last (trace p') =
                Sqfs_ll_mount mountdir (take (if verbose w > 2 then 2 else 1) [filepath, ''-d''])
                  (sqfs_ll_open_os w filepath))
       \<and> ''failed to create fuse session'' \<noteq> ''failed to mount''"
  using assms
  by (auto simp: sq_mount_nonempty sq_mount_dir_def sq_mount_session_def Ze_def Te_def
      Let_def emit_def)

theorem sq_mount_failure_messages_witness:
  "c_first ''/mnt/new'' \<noteq> CHR 0x00 \<and> c_first ''/mnt/new2'' \<noteq> CHR 0x00
   \<and> sqfs_ll_open_os os_example ''/tmp/image.sqfs'' \<noteq> None
   \<and> mkdir os_example ''/mnt/new'' = 0 \<and> mkdir os_example ''/mnt/new2'' = 0
   \<and> sqfs_ll_mount_os os_example ''/mnt/new'' = (1, Some 3)
   \<and> sqfs_ll_mount_os os_example ''/mnt/new2'' = (1, None)
   \<and> 1 \<noteq> SQFS_OK
   \<and> (\<exists>p'. sq_mount os_example ''/mnt/new'' ''/tmp/image.sqfs'' proc_start
             = [(Fatal ''failed to mount'', p')] \<and> session (chan (sq p')) = Some 3)
   \<and> (\<exists>p'. sq_mount os_example ''/mnt/new2'' ''/tmp/image.sqfs'' proc_start
             = [(Fatal ''failed to create fuse session'', p')] \<and> session (chan (sq p')) = None)"
proof -
  have c1: "c_first ''/mnt/new'' \<noteq> CHR 0x00" and c2: "c_first ''/mnt/new2'' \<noteq> CHR 0x00"
    by (simp_all add: c_first_def)
  have o: "sqfs_ll_open_os os_example ''/tmp/image.sqfs'' \<noteq> None"
    by (simp add: os_example_def)
  have m1: "mkdir os_example ''/mnt/new'' = 0" and m2: "mkdir os_example ''/mnt/new2'' = 0"
    by (simp_all add: mkdir_def os_example_def)
  have s1: "sqfs_ll_mount_os os_example ''/mnt/new'' = (1, Some 3)"
    and s2: "sqfs_ll_mount_os os_example ''/mnt/new2'' = (1, None)"
    by (simp_all add: os_example_def)
  have n: "1 \<noteq> SQFS_OK" by (simp add: SQFS_OK_def)
  from sq_mount_failure_messages [OF c1 o disjI2 [OF m1] s1 n, of proc_start]
  have r1: "\<exists>p'. sq_mount os_example ''/mnt/new'' ''/tmp/image.sqfs'' proc_start
             = [(Fatal ''failed to mount'', p')] \<and> session (chan (sq p')) = Some 3"
    by auto
  from sq_mount_failure_messages [OF c2 o disjI2 [OF m2] s2 n, of proc_start]
  have r2: "\<exists>p'. sq_mount os_example ''/mnt/new2'' ''/tmp/image.sqfs'' proc_start
             = [(Fatal ''failed to create fuse session'', p')] \<and> session (chan (sq p')) = None"
    by auto
  from c1 c2 o m1 m2 s1 s2 n r1 r2 show ?thesis by simp
qed

text \<open>
  C10. A mount directory that exists but cannot be opened for reading: \<open>opendir\<close> gives
  \<open>NULL\<close>, so \<open>mkdir\<close> is called on the existing directory, fails, and the call ends in
  the fatal error \<open>failed to create:\<close> followed by the mount directory.
\<close>

theorem sq_mount_unreadable_dir:
  assumes "c_first mountdir \<noteq> CHR 0x00" and "sqfs_ll_open_os w filepath \<noteq> None"
    and "path_status_os w mountdir = Dir_unreadable"
  shows "\<exists>p'. sq_mount w mountdir filepath p = [(Fatal (''failed to create: '' @ mountdir), p')]
            \<and> new_events p p' = [Log_info (''mount point: '' @ mountdir), Sqfs_ll_open filepath,
                 Opendir mountdir, Mkdir mountdir]"
  using assms
  by (auto simp: sq_mount_nonempty sq_mount_dir_def opendir_def mkdir_def Ze_def
      Let_def emit_def new_events_def)

theorem sq_mount_unreadable_dir_witness:
  "c_first ''/mnt/locked'' \<noteq> CHR 0x00
   \<and> sqfs_ll_open_os os_example ''/tmp/image.sqfs'' \<noteq> None
   \<and> path_status_os os_example ''/mnt/locked'' = Dir_unreadable
   \<and> (\<exists>p'. sq_mount os_example ''/mnt/locked'' ''/tmp/image.sqfs'' proc_start
             = [(Fatal ''failed to create: /mnt/locked'', p')]
          \<and> new_events proc_start p'
             = [Log_info ''mount point: /mnt/locked'', Sqfs_ll_open ''/tmp/image.sqfs'',
                Opendir ''/mnt/locked'', Mkdir ''/mnt/locked''])"
proof -
  have c: "c_first ''/mnt/locked'' \<noteq> CHR 0x00" by (simp add: c_first_def)
  have o: "sqfs_ll_open_os os_example ''/tmp/image.sqfs'' \<noteq> None"
    by (simp add: os_example_def)
  have d: "path_status_os os_example ''/mnt/locked'' = Dir_unreadable"
    by (simp add: os_example_def)
  from sq_mount_unreadable_dir [OF c o d, of proc_start] c o d show ?thesis by simp
qed

text \<open>
  A mount that succeeds up to the fork leaves two processes. The child returns the
  mount directory. What the calling process does depends on \<open>fuse_session_loop\<close>: it
  stays in the loop, or ends fatally on a negative status, or, on any other status,
  falls through to line 138 and returns the mount directory as well.
\<close>

lemma sq_mount_success:
  assumes "c_first mountdir \<noteq> CHR 0x00" and "sqfs_ll_open_os w filepath \<noteq> None"
    and "opendir w mountdir \<or> mkdir w mountdir = 0"
    and "sqfs_ll_mount_os w mountdir = (SQFS_OK, s)"
    and "fuse_set_signal_handlers_os w \<ge> 0" and "fork_os w = Some n"
  shows "map fst (sq_mount w mountdir filepath p) =
           [case fuse_session_loop_os w of
              None \<Rightarrow> Serving
            | Some r \<Rightarrow> if r \<ge> 0 then Returned mountdir else Fatal ''failed to create fuse loop'',
            Returned mountdir]"
  using assms
  by (auto simp: sq_mount_nonempty sq_mount_dir_def sq_mount_session_def sq_mount_handlers_def
      sq_mount_forked_def fork_def Ze_def Te_def Let_def emit_def split: option.splits)

text \<open>
  C2. The mount of \<open>/tmp/image.sqfs\<close> at \<open>/mnt/img\<close> succeeds, the fork succeeds, and
  \<open>fuse_session_loop\<close> returns 0 in the service process: both processes return the
  mount directory from the call.
\<close>

theorem sq_mount_service_returns:
  "fuse_session_loop_os os_example = Some 0
   \<and> map fst (sq_mount os_example ''/mnt/img'' ''/tmp/image.sqfs'' proc_start)
       = [Returned ''/mnt/img'', Returned ''/mnt/img'']
   \<and> length (filter returned (sq_mount os_example ''/mnt/img'' ''/tmp/image.sqfs'' proc_start)) = 2"
  by (simp add: sq_mount_def sq_mount_dir_def sq_mount_session_def sq_mount_handlers_def
      sq_mount_forked_def fork_def Ze_def Te_def Let_def emit_def os_example_def c_first_def
      opendir_def SQFS_OK_def proc_start_def sq_zero_def)

section \<open>Properties of the lifecycle\<close>

text \<open>
  The mount operation leaves the exit handlers and the liveness of the process as they
  were, and a process that is left in the service loop has \<open>sq_end\<close> installed.
\<close>

lemma sq_mount_forked_snd:
  "exit_handlers (snd (sq_mount_forked w status p)) = exit_handlers p
   \<and> exited (snd (sq_mount_forked w status p)) = exited p
   \<and> sigchld (snd (sq_mount_forked w status p)) = sigchld p"
  by (simp add: sq_mount_forked_def Te_def Let_def emit_def split: option.splits)

lemma sq_mount_forked_state:
  assumes "(r, q) = sq_mount_forked w status p"
  shows "exit_handlers q = exit_handlers p \<and> exited q = exited p \<and> sigchld q = sigchld p"
  using sq_mount_forked_snd [of w status p] assms [symmetric] by simp

lemma sq_mount_handlers_state:
  assumes "(r, q) \<in> set (sq_mount_handlers w p)"
  shows "exit_handlers q = exit_handlers p \<and> exited q = exited p \<and> sigchld q = Sq_end"
  using assms
  by (auto simp: sq_mount_handlers_def fork_def Te_def Let_def emit_def
      split: option.splits if_splits dest!: sq_mount_forked_state)

lemma sq_mount_session_state:
  assumes "(r, q) \<in> set (sq_mount_session w args p)"
  shows "exit_handlers q = exit_handlers p \<and> exited q = exited p
       \<and> (r = Serving \<longrightarrow> sigchld q = Sq_end)"
  using assms
  by (auto simp: sq_mount_session_def Te_def Let_def emit_def
      split: option.splits if_splits prod.splits dest!: sq_mount_handlers_state)

lemma sq_mount_dir_state:
  assumes "(r, q) \<in> set (sq_mount_dir w args p)"
  shows "exit_handlers q = exit_handlers p \<and> exited q = exited p
       \<and> (r = Serving \<longrightarrow> sigchld q = Sq_end)"
  using assms
  by (auto simp: sq_mount_dir_def Ze_def Let_def emit_def
      split: option.splits if_splits dest!: sq_mount_session_state)

lemma sq_mount_serving_state:
  assumes "(r, q) \<in> set (sq_mount w mountdir filepath p)"
  shows "exit_handlers q = exit_handlers p \<and> exited q = exited p
       \<and> (r = Serving \<longrightarrow> sigchld q = Sq_end)"
  using assms
  by (auto simp: sq_mount_def Ze_def Te_def Let_def emit_def
      split: option.splits if_splits dest!: sq_mount_dir_state)

lemma serving_example_eq:
  "serving_example =
     \<lparr>sq = \<lparr>mountpt = ''/mnt/img'', chan = \<lparr>session = Some 3\<rparr>, ll = Some 7\<rparr>,
      streams = [], sigchld = Sq_end, exit_handlers = [Sq_clean],
      trace = [Log_info ''mount point: /mnt/img'', Sqfs_ll_open ''/tmp/image.sqfs'',
               Opendir ''/mnt/img'', Sqfs_ll_mount ''/mnt/img'' [''/tmp/image.sqfs''] (Some 7),
               Signal_SIGCHLD Sq_end, Fuse_set_signal_handlers (Some 3), Fork,
               Fuse_session_loop (Some 3)],
      exited = None\<rparr>"
  by (simp add: serving_example_def os_serving_def register_cleanup_def
      sq_mount_def sq_mount_dir_def sq_mount_session_def sq_mount_handlers_def
      sq_mount_forked_def fork_def Ze_def Te_def Let_def emit_def os_example_def c_first_def
      opendir_def SQFS_OK_def proc_start_def sq_zero_def)

lemma serving_unregistered_eq:
  "serving_unregistered = serving_example\<lparr>exit_handlers := []\<rparr>"
  by (simp add: serving_example_eq serving_unregistered_def os_serving_def
      sq_mount_def sq_mount_dir_def sq_mount_session_def sq_mount_handlers_def
      sq_mount_forked_def fork_def Ze_def Te_def Let_def emit_def os_example_def c_first_def
      opendir_def SQFS_OK_def proc_start_def sq_zero_def)

text \<open>The statements of \<open>sq_clean\<close>, run one after the other, are \<open>sq_clean\<close>.\<close>

lemma sq_clean_body_runs: "fold run_stmt sq_clean_body p = sq_clean p"
  by (simp add: sq_clean_body_def run_stmt_def sq_clean_def emit_def Let_def)

text \<open>
  An exit that no signal interrupts, whether called directly or by \<open>sq_end\<close>: \<open>sq_clean\<close>
  runs to its end, once, and the process terminates with the status given.
\<close>

lemma exit_uninterrupted:
  assumes "exited p = None" and "exit_handlers p = [Sq_clean]"
  shows "snd (lifetime (Call_exit status # replicate 6 Advance) (Running, p))
           = (emit (Exit status) (sq_clean p))\<lparr>exited := Some status\<rparr>"
  using assms
  by (simp add: lifetime_def step_def exit_call_def numeral_eq_Suc sq_clean_body_def
      run_stmt_def sq_clean_def emit_def Let_def)

lemma sq_end_uninterrupted:
  assumes "exited p = None" and "exit_handlers p = [Sq_clean]" and "sigchld p = Sq_end"
  shows "snd (lifetime (Sigchld # replicate 6 Advance) (Running, p))
           = (emit (Exit 0) (sq_clean (emit (Log_debug ''end fuse loop'') p)))\<lparr>exited := Some 0\<rparr>"
  using assms
  by (simp add: lifetime_def step_def sq_end_def exit_call_def numeral_eq_Suc sq_clean_body_def
      run_stmt_def sq_clean_def emit_def Let_def)

text \<open>
  C1. The service process of the mount of \<open>/tmp/image.sqfs\<close> at \<open>/mnt/img\<close>, with
  \<open>sq_clean\<close> registered. \<open>exit (1)\<close> is called directly; \<open>sq_clean\<close> has called
  \<open>fuse_remove_signal_handlers\<close> and \<open>sqfs_ll_destroy\<close> when the worker terminates and
  \<open>SIGCHLD\<close> runs \<open>sq_end\<close>, which calls \<open>exit (0)\<close>. The process ends with status 0
  and \<open>sqfs_ll_unmount\<close> has not been called: the teardown is cut short, not run once.
\<close>

theorem sq_clean_interrupted:
  "new_events serving_example
     (snd (lifetime [Call_exit 1, Advance, Advance, Advance, Sigchld, Advance]
            (Running, serving_example)))
     = [Fuse_remove_signal_handlers (Some 3), Sqfs_ll_destroy (Some 7),
        Log_debug ''end fuse loop'', Exit 0]
   \<and> exited (snd (lifetime [Call_exit 1, Advance, Advance, Advance, Sigchld, Advance]
                    (Running, serving_example))) = Some 0"
  by (simp add: serving_example_eq lifetime_def step_def sq_end_def exit_call_def
      sq_clean_body_def run_stmt_def emit_def new_events_def)

text \<open>
  With nothing registered to run at exit, as in the file itself, which registers nothing,
  the termination of the worker ends the service process with no teardown call at all.
\<close>

lemma sq_end_unregistered:
  "new_events serving_unregistered
     (snd (lifetime [Sigchld, Advance] (Running, serving_unregistered)))
     = [Log_debug ''end fuse loop'', Exit 0]"
  by (simp add: serving_unregistered_eq serving_example_eq lifetime_def step_def sq_end_def
      exit_call_def emit_def new_events_def)

text \<open>
  What does hold however the signals fall: no teardown call is made twice, and those
  made are made in the order of lines 68-71. The calls made during any run begin the
  complete teardown.
\<close>

lemma owed_body: "owed s sq_clean_body = full_teardown s"
  by (simp add: owed_def sq_clean_body_def full_teardown_def)

lemma cleanup_inv_start:
  assumes "exit_handlers p = [Sq_clean]"
  shows "cleanup_inv p (Running, p)"
  using assms by (simp add: cleanup_inv_def new_events_def)

lemma cleanup_inv_exit_call:
  assumes "cleanup_inv p0 cp"
  shows "cleanup_inv p0 (exit_call status cp)"
proof (cases "fst cp")
  case Running
  with assms show ?thesis by (simp add: cleanup_inv_def exit_call_def)
next
  case (In_exit st hs ss)
  with assms show ?thesis
    by (auto simp: cleanup_inv_def exit_call_def owed_def intro: append_prefixD)
qed

lemma cleanup_inv_log:
  assumes "cleanup_inv p0 cp" and "\<not> teardown e"
  shows "cleanup_inv p0 (fst cp, emit e (snd cp))"
  using assms
  by (auto simp: cleanup_inv_def emit_def new_events_def split: control.splits)

lemma cleanup_inv_advance:
  assumes "cleanup_inv p0 cp"
  shows "cleanup_inv p0 (advance cp)"
proof (cases cp rule: advance.cases)
  case (1 p)
  with assms show ?thesis by simp
next
  case (2 status hs s ss p)
  with assms show ?thesis
    by (auto simp: cleanup_inv_def run_stmt_def emit_def new_events_def owed_def)
next
  case (3 status h hs p)
  with assms show ?thesis
    by (cases h) (auto simp: cleanup_inv_def owed_body)
next
  case (4 status p)
  with assms show ?thesis
    by (auto simp: cleanup_inv_def emit_def new_events_def)
qed

lemma cleanup_inv_step:
  assumes "cleanup_inv p0 cp"
  shows "cleanup_inv p0 (step t cp)"
proof (cases t)
  case Sigchld
  from cleanup_inv_exit_call [OF cleanup_inv_log [OF assms, of "Log_debug ''end fuse loop''"], of 0]
  have "cleanup_inv p0 (sq_end cp)" by (simp add: sq_end_def)
  with assms Sigchld show ?thesis by (simp add: step_def split: sig_handler.splits)
next
  case (Call_exit status)
  with assms cleanup_inv_exit_call [OF assms, of status] show ?thesis
    by (simp add: step_def split: control.splits)
next
  case Advance
  with assms cleanup_inv_advance [OF assms] show ?thesis by (simp add: step_def)
qed

lemma cleanup_inv_lifetime:
  assumes "cleanup_inv p0 cp"
  shows "cleanup_inv p0 (lifetime ts cp)"
  using assms unfolding lifetime_def
  by (induction ts arbitrary: cp) (simp_all add: cleanup_inv_step)

lemma teardown_never_twice:
  assumes "exit_handlers p = [Sq_clean]"
  shows "prefix (filter teardown (new_events p (snd (lifetime ts (Running, p)))))
           (full_teardown (sq p))"
proof -
  from cleanup_inv_lifetime [OF cleanup_inv_start [OF assms], of ts]
  show ?thesis
    by (auto simp: cleanup_inv_def split: control.splits dest: append_prefixD)
qed

end
